theory Spec2Isabelle
  imports Main "HOL-Library.Char_ord" "HOL-Library.List_Lexorder"
begin

section \<open>Go values\<close>

text \<open>
  A Go \<open>string\<close> and a Go \<open>[]byte\<close> are both sequences of bytes; the conversion
  \<open>string(topicBytes)\<close> copies the bytes and checks nothing. Both are modelled as
  \<open>string\<close> (a list of 8-bit characters), so the conversion is the identity.

  A Go \<open>error\<close> is an interface with one method, \<open>Error() string\<close>. A call returning
  \<open>(v, err)\<close> is a pair whose second component is \<open>None\<close> for \<open>nil\<close>.
\<close>

datatype go_error = GoError (Error: string)

section \<open>The encyclopedia provider (package \<open>go-wiki\<close>)\<close>

text \<open>
  The source calls two operations of the provider: \<open>wiki.GetPage(topic, -1, false, false)\<close>
  and \<open>page.GetSummary()\<close>. Both are network calls outside the source, so they are
  parameters of the model: a \<open>provider\<close> is what the two operations answer during one
  run of a handler. A run calls each of them at most once, so within a run nothing is
  lost by taking them as functions; two runs may meet two different providers (the
  encyclopedia has changed, the library has cached a page). Every effect the handlers
  have on the outside world is appended to a log of events, which makes "is never
  invoked" and "at most once" statements about that log.
\<close>

record 'page provider =
  GetPage :: "string \<Rightarrow> int \<Rightarrow> bool \<Rightarrow> bool \<Rightarrow> 'page \<times> go_error option"
  GetSummary :: "'page \<Rightarrow> string \<times> go_error option"

datatype 'page event =
    EvReadAll
  | EvGetPage string int bool bool
  | EvGetSummary 'page

fun isGetPage :: "'page event \<Rightarrow> bool" where
  "isGetPage (EvGetPage t l a b) = True"
| "isGetPage e = False"

fun isGetSummary :: "'page event \<Rightarrow> bool" where
  "isGetSummary (EvGetSummary p) = True"
| "isGetSummary e = False"

section \<open>\<open>fetchWikipediaSummary\<close>\<close>

definition fetchWikipediaSummary ::
  "'page provider \<Rightarrow> string \<Rightarrow> 'page event list \<Rightarrow> (string \<times> go_error option) \<times> 'page event list"
where
  "fetchWikipediaSummary wiki topic log =
     (case GetPage wiki topic (- 1) False False of (page, err) \<Rightarrow>
        let log1 = log @ [EvGetPage topic (- 1) False False] in
        if err \<noteq> None then (([], err), log1)
        else
          (case GetSummary wiki page of (summary, err) \<Rightarrow>
             let log2 = log1 @ [EvGetSummary page] in
             if err \<noteq> None then (([], err), log2)
             else ((summary, None), log2)))"

section \<open>Requests and \<open>io.ReadAll\<close>\<close>

text \<open>
  A request body is an \<open>io.Reader\<close>: each \<open>Read\<close> hands over some bytes, reports the end
  of the stream (\<open>io.EOF\<close>) or fails. A body is a finite sequence of such reads.
  \<open>io.ReadAll\<close> loops over the reads, appending what each delivers, until the end
  (returning a nil error) or a failure (returning the bytes read so far and the error).
\<close>

datatype reader = EOF | Fail go_error | Data string reader

fun ReadAll_loop :: "reader \<Rightarrow> string \<Rightarrow> string \<times> go_error option" where
  "ReadAll_loop EOF b = (b, None)"
| "ReadAll_loop (Fail e) b = (b, Some e)"
| "ReadAll_loop (Data chunk r) b = ReadAll_loop r (b @ chunk)"

definition ReadAll :: "reader \<Rightarrow> string \<times> go_error option" where
  "ReadAll r = ReadAll_loop r []"

text \<open>
  The bytes a body delivers before it ends or fails, and how it ends: what the
  specification calls the request body, stated without the accumulator of the loop.
\<close>

fun contents :: "reader \<Rightarrow> string" where
  "contents EOF = []"
| "contents (Fail e) = []"
| "contents (Data chunk r) = chunk @ contents r"

fun outcome :: "reader \<Rightarrow> go_error option" where
  "outcome EOF = None"
| "outcome (Fail e) = Some e"
| "outcome (Data chunk r) = outcome r"

record Request =
  Method :: string
  Path :: string
  Body :: reader

definition MethodPost :: string where
  "MethodPost = ''POST''"

section \<open>The response writer (package \<open>net/http\<close>)\<close>

text \<open>
  An \<open>http.ResponseWriter\<close> as the handlers use it: the header map, the status code
  once \<open>WriteHeader\<close> has been called, and the byte slices handed to \<open>Write\<close>, one
  list element per call. The first \<open>Write\<close> on a writer with no status yet sends
  status 200, and a handler that returns without writing anything also answers 200.
\<close>

record ResponseWriter =
  header :: "string \<rightharpoonup> string list"
  status :: "int option"
  writes :: "string list"

definition newResponseWriter :: ResponseWriter where
  "newResponseWriter = \<lparr>header = Map.empty, status = None, writes = []\<rparr>"

definition StatusOK :: int where "StatusOK = 200"
definition StatusBadRequest :: int where "StatusBadRequest = 400"
definition StatusMethodNotAllowed :: int where "StatusMethodNotAllowed = 405"
definition StatusInternalServerError :: int where "StatusInternalServerError = 500"

definition WriteHeader :: "int \<Rightarrow> ResponseWriter \<Rightarrow> ResponseWriter" where
  "WriteHeader code w = (if status w = None then w\<lparr>status := Some code\<rparr> else w)"

definition Write :: "string \<Rightarrow> ResponseWriter \<Rightarrow> ResponseWriter" where
  "Write b w =
     (let w' = (if status w = None then WriteHeader StatusOK w else w)
      in w'\<lparr>writes := writes w' @ [b]\<rparr>)"

text \<open>
  What the client receives. The status line carries the code of \<open>WriteHeader\<close>, or 200.
  The server sends the written bytes as the body, except where HTTP allows none: in
  reply to a \<open>HEAD\<close> request the server swallows every write, and with a status 1xx,
  204 or 304 \<open>Write\<close> refuses the bytes. The field \<open>writes\<close> keeps what the handler
  handed over in either case.
\<close>

definition statusCode :: "ResponseWriter \<Rightarrow> int" where
  "statusCode w = (case status w of None \<Rightarrow> StatusOK | Some code \<Rightarrow> code)"

definition MethodHead :: string where
  "MethodHead = ''HEAD''"

definition bodyAllowedForStatus :: "int \<Rightarrow> bool" where
  "bodyAllowedForStatus code =
     (if 100 \<le> code \<and> code \<le> 199 then False
      else if code = 204 then False
      else if code = 304 then False
      else True)"

definition body :: "Request \<Rightarrow> ResponseWriter \<Rightarrow> string" where
  "body r w =
     (if Method r = MethodHead then []
      else if bodyAllowedForStatus (statusCode w) then concat (writes w)
      else [])"

subsection \<open>Header keys (\<open>textproto.CanonicalMIMEHeaderKey\<close>)\<close>

definition isLower :: "char \<Rightarrow> bool" where
  "isLower c = (CHR ''a'' \<le> c \<and> c \<le> CHR ''z'')"

definition isUpper :: "char \<Rightarrow> bool" where
  "isUpper c = (CHR ''A'' \<le> c \<and> c \<le> CHR ''Z'')"

definition isDigit :: "char \<Rightarrow> bool" where
  "isDigit c = (CHR ''0'' \<le> c \<and> c \<le> CHR ''9'')"

definition validHeaderFieldByte :: "char \<Rightarrow> bool" where
  "validHeaderFieldByte c =
     (isLower c \<or> isUpper c \<or> isDigit c \<or> List.member ''!#$%&*+-.^_|~'' c
      \<or> c = CHR 0x27 \<or> c = CHR 0x60)"

fun canonicalise :: "bool \<Rightarrow> string \<Rightarrow> string" where
  "canonicalise upper [] = []"
| "canonicalise upper (c # cs) =
     (let c' = (if upper \<and> isLower c then char_of (of_char c - (32::nat))
                else if \<not> upper \<and> isUpper c then char_of (of_char c + (32::nat))
                else c)
      in c' # canonicalise (c' = CHR ''-'') cs)"

definition CanonicalMIMEHeaderKey :: "string \<Rightarrow> string" where
  "CanonicalMIMEHeaderKey s = (if list_all validHeaderFieldByte s then canonicalise True s else s)"

definition Header_Set :: "string \<Rightarrow> string \<Rightarrow> ResponseWriter \<Rightarrow> ResponseWriter" where
  "Header_Set key v w = w\<lparr>header := (header w)(CanonicalMIMEHeaderKey key \<mapsto> [v])\<rparr>"

definition Header_Del :: "string \<Rightarrow> ResponseWriter \<Rightarrow> ResponseWriter" where
  "Header_Del key w = w\<lparr>header := (header w)(CanonicalMIMEHeaderKey key := None)\<rparr>"

subsection \<open>\<open>fmt.Fprint\<close>, \<open>fmt.Fprintln\<close>, \<open>fmt.Sprintf\<close> and \<open>http.Error\<close>\<close>

text \<open>
  \<open>fmt.Fprint(w, s)\<close> with one string operand formats \<open>s\<close> as itself into a buffer and
  hands the buffer to \<open>w.Write\<close> once; \<open>fmt.Fprintln\<close> adds a newline to the buffer
  first. The verb \<open>%v\<close> applied to an error prints what its \<open>Error\<close> method returns.
\<close>

definition newline :: char where
  "newline = CHR 0x0A"

definition Fprint :: "string \<Rightarrow> ResponseWriter \<Rightarrow> ResponseWriter" where
  "Fprint s w = Write s w"

definition Fprintln :: "string \<Rightarrow> ResponseWriter \<Rightarrow> ResponseWriter" where
  "Fprintln s w = Write (s @ [newline]) w"

definition Sprintf_lookup_error :: "go_error \<Rightarrow> string" where
  "Sprintf_lookup_error err = ''lookup error: '' @ Error err"

definition http_Error :: "string \<Rightarrow> int \<Rightarrow> ResponseWriter \<Rightarrow> ResponseWriter" where
  "http_Error msg code w =
     Fprintln msg
       (WriteHeader code
         (Header_Set ''X-Content-Type-Options'' ''nosniff''
           (Header_Set ''Content-Type'' ''text/plain; charset=utf-8''
             (Header_Del ''Content-Length'' w))))"

section \<open>\<open>lookupHandler\<close>\<close>

text \<open>
  A handler turns the response writer and the event log it is started with into the
  writer and log it leaves behind.
\<close>

type_synonym 'page conn = "ResponseWriter \<times> 'page event list"

definition lookupHandler :: "'page provider \<Rightarrow> Request \<Rightarrow> 'page conn \<Rightarrow> 'page conn" where
  "lookupHandler wiki r st =
     (case st of (w, log) \<Rightarrow>
        if Method r \<noteq> MethodPost
        then (http_Error ''POST required'' StatusMethodNotAllowed w, log)
        else
          (case ReadAll (Body r) of (topicBytes, err) \<Rightarrow>
             let log0 = log @ [EvReadAll] in
             if err \<noteq> None
             then (http_Error ''cannot read body'' StatusBadRequest w, log0)
             else
               let topic = topicBytes in
               (case fetchWikipediaSummary wiki topic log0 of ((summary, err), log1) \<Rightarrow>
                  (case err of
                     Some e \<Rightarrow>
                       (http_Error (Sprintf_lookup_error e) StatusInternalServerError w, log1)
                   | None \<Rightarrow> (Fprint summary w, log1)))))"

section \<open>\<open>json.Encoder.Encode\<close> on a \<open>map[string]string\<close>\<close>

text \<open>
  The health and version handlers encode a map from strings to strings with an
  encoder in its default configuration (HTML escaping on, no indentation). The
  encoder writes the object with its keys sorted bytewise, every key and value quoted
  by \<open>appendString\<close>, appends a newline, and hands the whole buffer to \<open>w.Write\<close>
  once.

  \<open>utf8.DecodeRuneInString\<close> returns the code point at the head of a string and the
  number of bytes it takes, or \<open>(RuneError, 1)\<close> where the head is no valid encoding.
  The library's lookup tables for the first byte are written out as comparisons.
\<close>

definition RuneError :: nat where
  "RuneError = 0xFFFD"

definition UTFMax :: nat where
  "UTFMax = 4"

definition DecodeRuneInString :: "string \<Rightarrow> nat \<times> nat" where
  "DecodeRuneInString s =
     (case s of
        [] \<Rightarrow> (RuneError, 0)
      | c0 # rest \<Rightarrow>
          let s0 = (of_char c0 :: nat) in
          if s0 < 0x80 then (s0, 1)
          else if s0 < 0xC2 \<or> 0xF4 < s0 then (RuneError, 1)
          else
            let sz = (if s0 < 0xE0 then 2 else if s0 < 0xF0 then 3 else (4::nat));
                lo = (if s0 = 0xE0 then 0xA0 else if s0 = 0xF0 then 0x90 else (0x80::nat));
                hi = (if s0 = 0xED then 0x9F else if s0 = 0xF4 then 0x8F else (0xBF::nat))
            in
            if length s < sz then (RuneError, 1)
            else
              let s1 = (of_char (s ! 1) :: nat) in
              if s1 < lo \<or> hi < s1 then (RuneError, 1)
              else if sz \<le> 2 then ((s0 mod 32) * 64 + s1 mod 64, 2)
              else
                let s2 = (of_char (s ! 2) :: nat) in
                if s2 < 0x80 \<or> 0xBF < s2 then (RuneError, 1)
                else if sz \<le> 3
                then ((s0 mod 16) * 4096 + (s1 mod 64) * 64 + s2 mod 64, 3)
                else
                  let s3 = (of_char (s ! 3) :: nat) in
                  if s3 < 0x80 \<or> 0xBF < s3 then (RuneError, 1)
                  else ((s0 mod 8) * 262144 + (s1 mod 64) * 4096
                         + (s2 mod 64) * 64 + s3 mod 64, 4))"

definition hex :: "nat \<Rightarrow> char" where
  "hex n = ''0123456789abcdef'' ! (n mod 16)"

definition backslash :: char where
  "backslash = CHR 0x5C"

definition dquote :: char where
  "dquote = CHR 0x22"

text \<open>
  \<open>htmlSafeSet\<close> holds the ASCII bytes the encoder copies as they are: the printable
  ones and DEL, without the double quote, the backslash and the three HTML characters.
\<close>

definition htmlSafeSet :: "char \<Rightarrow> bool" where
  "htmlSafeSet c =
     ((0x20::nat) \<le> of_char c \<and> of_char c < (0x80::nat)
      \<and> c \<noteq> dquote \<and> c \<noteq> backslash
      \<and> c \<noteq> CHR ''&'' \<and> c \<noteq> CHR ''<'' \<and> c \<noteq> CHR ''>'')"

definition escapeByte :: "char \<Rightarrow> string" where
  "escapeByte c =
     (if c = backslash \<or> c = dquote then [backslash, c]
      else if c = CHR 0x08 then [backslash, CHR ''b'']
      else if c = CHR 0x0C then [backslash, CHR ''f'']
      else if c = CHR 0x0A then [backslash, CHR ''n'']
      else if c = CHR 0x0D then [backslash, CHR ''r'']
      else if c = CHR 0x09 then [backslash, CHR ''t'']
      else [backslash, CHR ''u'', CHR ''0'', CHR ''0'',
            hex (of_char c div 16), hex (of_char c mod 16)])"

fun appendString_loop :: "string \<Rightarrow> string" where
  "appendString_loop [] = []"
| "appendString_loop (c # cs) =
     (if (of_char c :: nat) < 0x80
      then (if htmlSafeSet c then [c] else escapeByte c) @ appendString_loop cs
      else
        (case DecodeRuneInString (take UTFMax (c # cs)) of (r, sz) \<Rightarrow>
           if r = RuneError \<and> sz = 1
           then (backslash # ''ufffd'') @ appendString_loop cs
           else if r = 0x2028 \<or> r = 0x2029
           then (backslash # ''u202'') @ [hex (r mod 16)] @ appendString_loop (drop (sz - 1) cs)
           else take sz (c # cs) @ appendString_loop (drop (sz - 1) cs)))"

definition appendString :: "string \<Rightarrow> string" where
  "appendString s = [dquote] @ appendString_loop s @ [dquote]"

fun join :: "string \<Rightarrow> string list \<Rightarrow> string" where
  "join sep [] = []"
| "join sep [x] = x"
| "join sep (x # y # ys) = x @ sep @ join sep (y # ys)"

text \<open>
  A Go map literal is modelled as the list of its entries (the compiler rejects a
  literal with a repeated constant key); the encoder sorts the entries by key.
\<close>

definition marshalMap :: "(string \<times> string) list \<Rightarrow> string" where
  "marshalMap m =
     ''{'' @ join '','' (map (\<lambda>(k, v). appendString k @ '':'' @ appendString v) (sort_key fst m))
     @ ''}''"

definition Encode :: "(string \<times> string) list \<Rightarrow> ResponseWriter \<Rightarrow> ResponseWriter" where
  "Encode v w = Write (marshalMap v @ [newline]) w"

section \<open>The handlers registered by \<open>main\<close>\<close>

text \<open>
  \<open>appVersion\<close> is a package variable initialised to \<open>dev\<close>. The source never assigns
  it, but the linker may: the Makefile builds with \<open>-X main.appVersion=$(VERSION)\<close>, the
  Dockerfile without. The value the variable holds when the program starts is
  therefore a function of how the binary was linked: \<open>None\<close> for no \<open>-X\<close> flag,
  \<open>Some v\<close> for \<open>-X main.appVersion=v\<close>.
\<close>

definition appVersion :: "string option \<Rightarrow> string" where
  "appVersion linked = (case linked of None \<Rightarrow> ''dev'' | Some v \<Rightarrow> v)"

definition healthHandler :: "'page provider \<Rightarrow> Request \<Rightarrow> 'page conn \<Rightarrow> 'page conn" where
  "healthHandler wiki r st =
     (case st of (w, log) \<Rightarrow>
        (Encode [(''status'', ''ok'')] (Header_Set ''Content-Type'' ''application/json'' w), log))"

definition versionHandler ::
  "string option \<Rightarrow> 'page provider \<Rightarrow> Request \<Rightarrow> 'page conn \<Rightarrow> 'page conn"
where
  "versionHandler linked wiki r st =
     (case st of (w, log) \<Rightarrow>
        let w1 = Header_Set ''Content-Type'' ''application/json'' w;
            versionInfo = [(''name'', ''wikipedia-agent''), (''version'', appVersion linked)]
        in (Encode versionInfo w1, log))"

text \<open>
  \<open>main\<close> registers three patterns on the default mux, prints a banner and starts the
  server on the literal address \<open>:8080\<close>. It reads neither the command line nor the
  environment, so the server it starts is the same for every command line and
  environment. A pattern without a trailing slash matches that path only, for every
  method; what the mux does with any other path is the library's business and is
  \<open>None\<close> here.
\<close>

record 'page server =
  Addr :: string
  banner :: string
  routes :: "(string \<times> ('page provider \<Rightarrow> Request \<Rightarrow> 'page conn \<Rightarrow> 'page conn)) list"

definition main ::
  "string option \<Rightarrow> string list \<Rightarrow> (string \<times> string) list \<Rightarrow> 'page server"
where
  "main linked args environ =
     \<lparr>Addr = '':8080'',
      banner = ''Wikipedia Agent v'' @ appVersion linked @ '' listening on :8080'' @ [newline],
      routes = [(''/health'', healthHandler),
                (''/version'', versionHandler linked),
                (''/lookup'', lookupHandler)]\<rparr>"

definition ServeHTTP :: "'page server \<Rightarrow> 'page provider \<Rightarrow> Request \<Rightarrow> 'page conn option" where
  "ServeHTTP srv wiki r =
     (case map_of (routes srv) (Path r) of
        None \<Rightarrow> None
      | Some h \<Rightarrow> Some (h wiki r (newResponseWriter, [])))"

text \<open>
  What the client that sent \<open>r\<close> observes of a finished exchange: status code and
  body.
\<close>

definition response :: "Request \<Rightarrow> 'page conn \<Rightarrow> int \<times> string" where
  "response r st = (statusCode (fst st), body r (fst st))"

text \<open>
  Providers for trying the handlers on concrete requests: one with two pages; one
  that numbers its pages differently and knows other titles, but answers the title
  \<open>Go\<close> with the same summary; and one where the summary of \<open>Go\<close> has been edited.
\<close>

definition example_wiki :: "nat provider" where
  "example_wiki =
     \<lparr>GetPage = (\<lambda>title n a b.
         if title = ''Go'' then (1, None)
         else if title = ''Mercury'' then (2, None)
         else (0, Some (GoError ''page not found''))),
      GetSummary = (\<lambda>page.
         if page = 1 then (''Go is a programming language.'', None)
         else (''may refer to'', Some (GoError ''no summary'')))\<rparr>"

definition other_wiki :: "nat provider" where
  "other_wiki =
     \<lparr>GetPage = (\<lambda>title n a b.
         if title = ''Go'' then (40, None)
         else if title = ''Rust'' then (41, None)
         else (0, Some (GoError ''no such title''))),
      GetSummary = (\<lambda>page.
         if page = 40 then (''Go is a programming language.'', None)
         else (''Rust is a programming language.'', None))\<rparr>"

definition edited_wiki :: "nat provider" where
  "edited_wiki =
     \<lparr>GetPage = (\<lambda>title n a b.
         if title = ''Go'' then (1, None)
         else (0, Some (GoError ''page not found''))),
      GetSummary = (\<lambda>page. (''Go is a board game.'', None))\<rparr>"

definition post_Go :: Request where
  "post_Go = \<lparr>Method = ''POST'', Path = ''/lookup'', Body = Data ''G'' (Data ''o'' EOF)\<rparr>"

definition post_Go_whole :: Request where
  "post_Go_whole = \<lparr>Method = ''POST'', Path = ''/lookup'', Body = Data ''Go'' EOF\<rparr>"

definition post_Mercury :: Request where
  "post_Mercury = \<lparr>Method = ''POST'', Path = ''/lookup'', Body = Data ''Mercury'' EOF\<rparr>"

definition post_empty :: Request where
  "post_empty = \<lparr>Method = ''POST'', Path = ''/lookup'', Body = EOF\<rparr>"

definition post_broken :: Request where
  "post_broken =
     \<lparr>Method = ''POST'', Path = ''/lookup'', Body = Data ''Go'' (Fail (GoError ''connection reset''))\<rparr>"

definition get_lookup :: Request where
  "get_lookup = \<lparr>Method = ''GET'', Path = ''/lookup'', Body = Data ''Go'' EOF\<rparr>"

definition get_health :: Request where
  "get_health = \<lparr>Method = ''GET'', Path = ''/health'', Body = EOF\<rparr>"

definition head_health :: Request where
  "head_health = \<lparr>Method = ''HEAD'', Path = ''/health'', Body = EOF\<rparr>"

definition delete_version :: Request where
  "delete_version = \<lparr>Method = ''DELETE'', Path = ''/version'', Body = EOF\<rparr>"

definition head_version :: Request where
  "head_version = \<lparr>Method = ''HEAD'', Path = ''/version'', Body = EOF\<rparr>"

section \<open>Properties\<close>

subsection \<open>The summary fetcher\<close>

text \<open>The events one call of \<open>fetchWikipediaSummary\<close> adds to the log.\<close>

lemma fetchWikipediaSummary_log:
  "snd (fetchWikipediaSummary wiki topic log) =
     log @ (EvGetPage topic (- 1) False False #
            (if snd (GetPage wiki topic (- 1) False False) \<noteq> None then []
             else [EvGetSummary (fst (GetPage wiki topic (- 1) False False))]))"
  by (simp add: fetchWikipediaSummary_def Let_def split: prod.splits)

lemma fetchWikipediaSummary_value:
  "fst (fetchWikipediaSummary wiki topic log) =
     (case GetPage wiki topic (- 1) False False of (page, err) \<Rightarrow>
        if err \<noteq> None then ([], err)
        else (case GetSummary wiki page of (summary, err') \<Rightarrow>
                if err' \<noteq> None then ([], err') else (summary, None)))"
  by (simp add: fetchWikipediaSummary_def Let_def split: prod.splits)

text \<open>
  Claim C10. For every topic, \<open>fetchWikipediaSummary\<close> returns either a summary with
  no error, or the empty string with a non-nil error. The events it adds to the log
  hold exactly one \<open>GetPage\<close> call and at most one \<open>GetSummary\<close> call, and a
  \<open>GetSummary\<close> call is there only if \<open>GetPage\<close> returned a nil error, on the page
  \<open>GetPage\<close> returned.
\<close>

theorem fetchWikipediaSummary_contract:
  assumes "fetchWikipediaSummary wiki topic log = ((s, err), log')"
  shows "(err = None \<or> s = [])
       \<and> (\<exists>calls. log' = log @ calls
            \<and> length (filter isGetPage calls) = 1
            \<and> length (filter isGetSummary calls) \<le> 1
            \<and> (\<forall>p. EvGetSummary p \<in> set calls \<longrightarrow>
                  GetPage wiki topic (- 1) False False = (p, None)))"
proof -
  obtain page e where gp: "GetPage wiki topic (- 1) False False = (page, e)"
    by (cases "GetPage wiki topic (- 1) False False")
  have v: "fst (fetchWikipediaSummary wiki topic log) = (s, err)"
    and l: "snd (fetchWikipediaSummary wiki topic log) = log'"
    using assms by simp_all
  have first: "err = None \<or> s = []"
    using v gp unfolding fetchWikipediaSummary_value
    by (auto split: prod.splits if_splits)
  let ?calls = "EvGetPage topic (- 1) False False #
                (if e \<noteq> None then [] else [EvGetSummary page])"
  have "log' = log @ ?calls"
    using l gp unfolding fetchWikipediaSummary_log by auto
  moreover have "length (filter isGetPage ?calls) = 1" by simp
  moreover have "length (filter isGetSummary ?calls) \<le> 1" by simp
  moreover have "\<forall>p. EvGetSummary p \<in> set ?calls \<longrightarrow>
                   GetPage wiki topic (- 1) False False = (p, None)"
    using gp by auto
  ultimately show ?thesis using first by blast
qed


theorem fetchWikipediaSummary_contract_witness:
  "fetchWikipediaSummary example_wiki ''Mercury'' [EvReadAll] =
     (([], Some (GoError ''no summary'')),
      [EvReadAll, EvGetPage ''Mercury'' (- 1) False False, EvGetSummary 2])
   \<and> GetSummary example_wiki 2 = (''may refer to'', Some (GoError ''no summary''))
   \<and> (\<exists>calls. [EvReadAll, EvGetPage ''Mercury'' (- 1) False False, EvGetSummary 2]
                  = [EvReadAll] @ calls
            \<and> length (filter isGetPage calls) = 1
            \<and> length (filter isGetSummary calls) \<le> 1
            \<and> (\<forall>p. EvGetSummary p \<in> set calls \<longrightarrow>
                  GetPage example_wiki ''Mercury'' (- 1) False False = (p, None)))"
proof -
  have h: "fetchWikipediaSummary example_wiki ''Mercury'' [EvReadAll] =
             (([], Some (GoError ''no summary'')),
              [EvReadAll, EvGetPage ''Mercury'' (- 1) False False, EvGetSummary 2])"
    by (simp add: fetchWikipediaSummary_def example_wiki_def)
  have g: "GetSummary example_wiki 2 = (''may refer to'', Some (GoError ''no summary''))"
    by (simp add: example_wiki_def)
  show ?thesis
    using h g fetchWikipediaSummary_contract [OF h] by simp
qed

subsection \<open>Library facts\<close>

lemmas writer_defs = http_Error_def Fprintln_def Fprint_def Write_def WriteHeader_def
  Header_Set_def Header_Del_def newResponseWriter_def statusCode_def
  StatusOK_def StatusBadRequest_def StatusMethodNotAllowed_def StatusInternalServerError_def

lemmas request_defs = post_Go_def post_Go_whole_def post_Mercury_def post_empty_def
  post_broken_def get_lookup_def get_health_def head_health_def delete_version_def
  head_version_def MethodPost_def MethodHead_def

lemma ReadAll_loop_contents: "ReadAll_loop r b = (b @ contents r, outcome r)"
  by (induction r arbitrary: b) simp_all

lemma ReadAll_contents: "ReadAll r = (contents r, outcome r)"
  by (simp add: ReadAll_def ReadAll_loop_contents)

text \<open>The body on the wire: nothing for \<open>HEAD\<close>, the writes for the statuses used here.\<close>

lemma body_head: "Method r = MethodHead \<Longrightarrow> body r w = []"
  by (simp add: body_def)

lemma body_written:
  "Method r \<noteq> MethodHead \<Longrightarrow> statusCode w \<in> {200, 400, 405, 500} \<Longrightarrow>
   body r w = concat (writes w)"
  by (auto simp add: body_def bodyAllowedForStatus_def)

lemma body_post:
  "Method r = MethodPost \<Longrightarrow> statusCode w \<in> {200, 400, 405, 500} \<Longrightarrow>
   body r w = concat (writes w)"
  by (rule body_written) (simp_all add: MethodPost_def MethodHead_def)

lemma http_Error_fresh:
  "statusCode (http_Error msg code newResponseWriter) = code"
  "writes (http_Error msg code newResponseWriter) = [msg @ [newline]]"
  by (simp_all add: writer_defs)

lemma Fprint_fresh:
  "statusCode (Fprint s newResponseWriter) = 200"
  "writes (Fprint s newResponseWriter) = [s]"
  by (simp_all add: writer_defs)

text \<open>
  A non-empty string always decodes to between one and four bytes, so the step
  \<open>drop (sz - 1) cs\<close> of \<open>appendString_loop\<close> is the source's \<open>i += size\<close>; a
  string of bytes the encoder considers safe is quoted as it is; and the quoted form
  of a string is the empty pair of quotes for the empty string only.
\<close>

lemma DecodeRuneInString_size:
  "s \<noteq> [] \<Longrightarrow> 1 \<le> snd (DecodeRuneInString s) \<and> snd (DecodeRuneInString s) \<le> UTFMax"
  by (cases s) (simp_all add: DecodeRuneInString_def Let_def UTFMax_def)

lemma appendString_loop_safe: "list_all htmlSafeSet s \<Longrightarrow> appendString_loop s = s"
  by (induction s) (simp_all add: htmlSafeSet_def)

lemma escapeByte_not_empty: "escapeByte c \<noteq> []"
  by (simp add: escapeByte_def)

lemma appendString_loop_empty: "(appendString_loop s = []) = (s = [])"
proof (cases s)
  case Nil
  then show ?thesis by simp
next
  case (Cons c cs)
  obtain r sz where d: "DecodeRuneInString (take UTFMax (c # cs)) = (r, sz)"
    by (metis surj_pair)
  have "take UTFMax (c # cs) \<noteq> []" by (simp add: UTFMax_def)
  then have "1 \<le> sz"
    using DecodeRuneInString_size [of "take UTFMax (c # cs)"] d by simp
  then have "take sz (c # cs) \<noteq> []" by (cases sz) simp_all
  then show ?thesis
    using Cons d by (simp add: escapeByte_not_empty)
qed

lemma appendString_empty: "(appendString s = [dquote, dquote]) = (s = [])"
  using appendString_loop_empty [of s] by (auto simp add: appendString_def)

lemma fetch_value_log:
  "fst (fetchWikipediaSummary wiki topic log) = fst (fetchWikipediaSummary wiki topic log')"
  by (simp add: fetchWikipediaSummary_value)

lemma fetch_log_append:
  "snd (fetchWikipediaSummary wiki topic log) = log @ snd (fetchWikipediaSummary wiki topic [])"
  by (simp add: fetchWikipediaSummary_log)

lemma fetch_calls_GetPage:
  "filter isGetPage (snd (fetchWikipediaSummary wiki topic [])) = [EvGetPage topic (- 1) False False]"
  by (simp add: fetchWikipediaSummary_log)

subsection \<open>The three outcomes of \<open>lookupHandler\<close>\<close>

lemma lookupHandler_not_post:
  "Method r \<noteq> MethodPost \<Longrightarrow>
   lookupHandler wiki r (w, log) = (http_Error ''POST required'' StatusMethodNotAllowed w, log)"
  by (simp add: lookupHandler_def)

lemma lookupHandler_read_fails:
  "Method r = MethodPost \<Longrightarrow> ReadAll (Body r) = (b, Some e) \<Longrightarrow>
   lookupHandler wiki r (w, log) =
     (http_Error ''cannot read body'' StatusBadRequest w, log @ [EvReadAll])"
  by (simp add: lookupHandler_def)

lemma lookupHandler_post:
  assumes "Method r = MethodPost" and "ReadAll (Body r) = (topic, None)"
  shows "lookupHandler wiki r (w, log) =
     ((case snd (fst (fetchWikipediaSummary wiki topic [])) of
         Some e \<Rightarrow> http_Error (Sprintf_lookup_error e) StatusInternalServerError w
       | None \<Rightarrow> Fprint (fst (fst (fetchWikipediaSummary wiki topic []))) w),
      log @ EvReadAll # snd (fetchWikipediaSummary wiki topic []))"
proof -
  obtain s err log1
    where f: "fetchWikipediaSummary wiki topic (log @ [EvReadAll]) = ((s, err), log1)"
    by (metis surj_pair)
  have v: "fst (fetchWikipediaSummary wiki topic []) = (s, err)"
    using f fetch_value_log [of wiki topic "[]" "log @ [EvReadAll]"] by simp
  have l: "log1 = log @ EvReadAll # snd (fetchWikipediaSummary wiki topic [])"
    using f fetch_log_append [of wiki topic "log @ [EvReadAll]"] by simp
  show ?thesis
    using assms f by (simp add: lookupHandler_def v l split: option.splits)
qed

lemma ServeHTTP_lookup:
  "Path r = ''/lookup'' \<Longrightarrow>
   ServeHTTP (main linked args environ) wiki r
     = Some (lookupHandler wiki r (newResponseWriter, []))"
  by (simp add: ServeHTTP_def main_def)

lemma ServeHTTP_health:
  "Path r = ''/health'' \<Longrightarrow>
   ServeHTTP (main linked args environ) wiki r
     = Some (healthHandler wiki r (newResponseWriter, []))"
  by (simp add: ServeHTTP_def main_def)

lemma ServeHTTP_version:
  "Path r = ''/version'' \<Longrightarrow>
   ServeHTTP (main linked args environ) wiki r
     = Some (versionHandler linked wiki r (newResponseWriter, []))"
  by (simp add: ServeHTTP_def main_def)

text \<open>The providers of the examples, evaluated.\<close>

lemma example_fetch_Go:
  "fetchWikipediaSummary example_wiki ''Go'' log =
     ((''Go is a programming language.'', None),
      log @ [EvGetPage ''Go'' (- 1) False False, EvGetSummary 1])"
  by (simp add: fetchWikipediaSummary_def example_wiki_def)

lemma example_fetch_Mercury:
  "fetchWikipediaSummary example_wiki ''Mercury'' log =
     (([], Some (GoError ''no summary'')),
      log @ [EvGetPage ''Mercury'' (- 1) False False, EvGetSummary 2])"
  by (simp add: fetchWikipediaSummary_def example_wiki_def)

lemma example_fetch_empty:
  "fetchWikipediaSummary example_wiki [] log =
     (([], Some (GoError ''page not found'')), log @ [EvGetPage [] (- 1) False False])"
  by (simp add: fetchWikipediaSummary_def example_wiki_def)

lemma other_fetch_Go:
  "fetchWikipediaSummary other_wiki ''Go'' log =
     ((''Go is a programming language.'', None),
      log @ [EvGetPage ''Go'' (- 1) False False, EvGetSummary 40])"
  by (simp add: fetchWikipediaSummary_def other_wiki_def)

lemma edited_fetch_Go:
  "fetchWikipediaSummary edited_wiki ''Go'' log =
     ((''Go is a board game.'', None),
      log @ [EvGetPage ''Go'' (- 1) False False, EvGetSummary 1])"
  by (simp add: fetchWikipediaSummary_def edited_wiki_def)

subsection \<open>The lookup endpoint\<close>

text \<open>
  Claim C1. A POST request to \<open>/lookup\<close> whose body is read without error, and for
  whose topic \<open>fetchWikipediaSummary\<close> returns the summary \<open>s\<close> and a nil error, is
  answered with status 200, and the response body is \<open>s\<close> unchanged, handed to the
  writer in a single write.
\<close>

theorem lookup_success_writes_summary:
  assumes "Path r = ''/lookup''" and "Method r = MethodPost"
    and "ReadAll (Body r) = (topic, None)"
    and "fst (fetchWikipediaSummary wiki topic l) = (s, None)"
  shows "\<exists>w log. ServeHTTP (main linked args environ) wiki r = Some (w, log)
           \<and> statusCode w = 200 \<and> writes w = [s] \<and> body r w = s"
proof -
  have v: "fst (fetchWikipediaSummary wiki topic []) = (s, None)"
    using assms(4) fetch_value_log [of wiki topic "[]" l] by simp
  have "lookupHandler wiki r (newResponseWriter, []) =
          (Fprint s newResponseWriter, [] @ EvReadAll # snd (fetchWikipediaSummary wiki topic []))"
    using lookupHandler_post [OF assms(2) assms(3), of wiki newResponseWriter "[]"] v by simp
  moreover have "body r (Fprint s newResponseWriter) = s"
    using body_post [OF assms(2), of "Fprint s newResponseWriter"] by (simp add: Fprint_fresh)
  ultimately show ?thesis
    using ServeHTTP_lookup [OF assms(1), of linked args environ wiki]
    by (simp add: Fprint_fresh)
qed

theorem lookup_success_writes_summary_witness:
  "Path post_Go = ''/lookup'' \<and> Method post_Go = MethodPost
   \<and> ReadAll (Body post_Go) = (''Go'', None)
   \<and> fst (fetchWikipediaSummary example_wiki ''Go'' []) = (''Go is a programming language.'', None)
   \<and> (\<exists>w log. ServeHTTP (main None [] []) example_wiki post_Go = Some (w, log)
           \<and> statusCode w = 200 \<and> writes w = [''Go is a programming language.'']
           \<and> body post_Go w = ''Go is a programming language.'')"
proof -
  have h1: "Path post_Go = ''/lookup''" by (simp add: request_defs)
  have h2: "Method post_Go = MethodPost" by (simp add: request_defs)
  have h3: "ReadAll (Body post_Go) = (''Go'', None)" by (simp add: request_defs ReadAll_def)
  have h4: "fst (fetchWikipediaSummary example_wiki ''Go'' []) =
              (''Go is a programming language.'', None)"
    by (simp add: example_fetch_Go)
  show ?thesis
    using h1 h2 h3 h4 lookup_success_writes_summary [OF h1 h2 h3 h4, of None "[]" "[]"] by simp
qed

text \<open>
  Claim C2. A request to \<open>/lookup\<close> whose method is not POST is answered with status
  405. The event log stays empty: the body is not read and neither provider operation
  is called; the answer is the same whatever the body holds. The handler writes the
  message \<open>POST required\<close> and a newline, which the client receives unless the method
  is \<open>HEAD\<close>.
\<close>

theorem lookup_rejects_other_methods:
  assumes "Path r = ''/lookup''" and "Method r \<noteq> MethodPost"
  shows "(\<exists>w. ServeHTTP (main linked args environ) wiki r = Some (w, [])
            \<and> statusCode w = 405
            \<and> writes w = [''POST required'' @ [newline]]
            \<and> body r w = (if Method r = MethodHead then [] else ''POST required'' @ [newline]))
       \<and> (\<forall>b. ServeHTTP (main linked args environ) wiki (r\<lparr>Body := b\<rparr>)
              = ServeHTTP (main linked args environ) wiki r)"
proof -
  let ?w = "http_Error ''POST required'' StatusMethodNotAllowed newResponseWriter"
  have a: "ServeHTTP (main linked args environ) wiki r = Some (?w, [])"
    using ServeHTTP_lookup [OF assms(1), of linked args environ wiki]
          lookupHandler_not_post [OF assms(2), of wiki newResponseWriter "[]"] by simp
  have b: "ServeHTTP (main linked args environ) wiki (r\<lparr>Body := b\<rparr>) = Some (?w, [])" for b
  proof -
    have p: "Path (r\<lparr>Body := b\<rparr>) = ''/lookup''" using assms(1) by simp
    have m: "Method (r\<lparr>Body := b\<rparr>) \<noteq> MethodPost" using assms(2) by simp
    show ?thesis
      using ServeHTTP_lookup [OF p, of linked args environ wiki]
            lookupHandler_not_post [OF m, of wiki newResponseWriter "[]"] by simp
  qed
  have s: "statusCode ?w = 405" "writes ?w = [''POST required'' @ [newline]]"
    by (simp_all add: http_Error_fresh StatusMethodNotAllowed_def)
  have c: "body r ?w = (if Method r = MethodHead then [] else ''POST required'' @ [newline])"
  proof (cases "Method r = MethodHead")
    case True
    then show ?thesis by (simp add: body_head)
  next
    case False
    then show ?thesis
      using body_written [OF False, of ?w] s by simp
  qed
  show ?thesis
    using a b s c by simp
qed

theorem lookup_rejects_other_methods_witness:
  "Path get_lookup = ''/lookup'' \<and> Method get_lookup \<noteq> MethodPost
   \<and> (\<exists>w. ServeHTTP (main None [] []) example_wiki get_lookup = Some (w, [])
            \<and> statusCode w = 405 \<and> body get_lookup w = ''POST required'' @ [newline])"
proof -
  have h1: "Path get_lookup = ''/lookup''" by (simp add: request_defs)
  have h2: "Method get_lookup \<noteq> MethodPost" by (simp add: request_defs)
  have h3: "Method get_lookup \<noteq> MethodHead" by (simp add: request_defs)
  show ?thesis
    using h1 h2 h3 lookup_rejects_other_methods [OF h1 h2, of None "[]" "[]" example_wiki]
    by auto
qed

text \<open>
  Claim C3. A POST request to \<open>/lookup\<close> for whose topic \<open>fetchWikipediaSummary\<close>
  returns the error \<open>e\<close> is answered with status 500, and the body is the text
  \<open>lookup error: \<close> followed by the text of \<open>e\<close> and a newline.
\<close>

theorem lookup_error_gives_500:
  assumes "Path r = ''/lookup''" and "Method r = MethodPost"
    and "ReadAll (Body r) = (topic, None)"
    and "fst (fetchWikipediaSummary wiki topic l) = (s, Some e)"
  shows "\<exists>w log. ServeHTTP (main linked args environ) wiki r = Some (w, log)
           \<and> statusCode w = 500
           \<and> body r w = ''lookup error: '' @ Error e @ [newline]"
proof -
  let ?w = "http_Error (Sprintf_lookup_error e) StatusInternalServerError newResponseWriter"
  have v: "fst (fetchWikipediaSummary wiki topic []) = (s, Some e)"
    using assms(4) fetch_value_log [of wiki topic "[]" l] by simp
  have "lookupHandler wiki r (newResponseWriter, []) =
          (?w, [] @ EvReadAll # snd (fetchWikipediaSummary wiki topic []))"
    using lookupHandler_post [OF assms(2) assms(3), of wiki newResponseWriter "[]"] v by simp
  moreover have st: "statusCode ?w = 500"
    by (simp add: http_Error_fresh StatusInternalServerError_def)
  moreover have "body r ?w = ''lookup error: '' @ Error e @ [newline]"
    using body_post [OF assms(2), of ?w] st
    by (simp add: http_Error_fresh Sprintf_lookup_error_def)
  ultimately show ?thesis
    using ServeHTTP_lookup [OF assms(1), of linked args environ wiki] by simp
qed

theorem lookup_error_gives_500_witness:
  "Path post_Mercury = ''/lookup'' \<and> Method post_Mercury = MethodPost
   \<and> ReadAll (Body post_Mercury) = (''Mercury'', None)
   \<and> fst (fetchWikipediaSummary example_wiki ''Mercury'' []) = ([], Some (GoError ''no summary''))
   \<and> (\<exists>w log. ServeHTTP (main None [] []) example_wiki post_Mercury = Some (w, log)
           \<and> statusCode w = 500
           \<and> body post_Mercury w = ''lookup error: no summary'' @ [newline])"
proof -
  have h1: "Path post_Mercury = ''/lookup''" by (simp add: request_defs)
  have h2: "Method post_Mercury = MethodPost" by (simp add: request_defs)
  have h3: "ReadAll (Body post_Mercury) = (''Mercury'', None)"
    by (simp add: request_defs ReadAll_def)
  have h4: "fst (fetchWikipediaSummary example_wiki ''Mercury'' []) =
              ([], Some (GoError ''no summary''))"
    by (simp add: example_fetch_Mercury)
  show ?thesis
    using h1 h2 h3 h4 lookup_error_gives_500 [OF h1 h2 h3 h4, of None "[]" "[]"] by simp
qed

text \<open>
  Claim C7. A POST request to \<open>/lookup\<close> whose body cannot be read is answered with
  status 400, and the event log holds the read alone: neither provider operation is
  called.
\<close>

theorem lookup_unreadable_body_gives_400:
  assumes "Path r = ''/lookup''" and "Method r = MethodPost"
    and "ReadAll (Body r) = (b, Some e)"
  shows "\<exists>w. ServeHTTP (main linked args environ) wiki r = Some (w, [EvReadAll])
           \<and> statusCode w = 400 \<and> body r w = ''cannot read body'' @ [newline]"
proof -
  let ?w = "http_Error ''cannot read body'' StatusBadRequest newResponseWriter"
  have st: "statusCode ?w = 400"
    by (simp add: http_Error_fresh StatusBadRequest_def)
  have "body r ?w = ''cannot read body'' @ [newline]"
    using body_post [OF assms(2), of ?w] st by (simp add: http_Error_fresh)
  then show ?thesis
    using ServeHTTP_lookup [OF assms(1), of linked args environ wiki]
          lookupHandler_read_fails [OF assms(2) assms(3), of wiki newResponseWriter "[]"] st
    by simp
qed

theorem lookup_unreadable_body_gives_400_witness:
  "Path post_broken = ''/lookup'' \<and> Method post_broken = MethodPost
   \<and> ReadAll (Body post_broken) = (''Go'', Some (GoError ''connection reset''))
   \<and> (\<exists>w. ServeHTTP (main None [] []) example_wiki post_broken = Some (w, [EvReadAll])
           \<and> statusCode w = 400 \<and> body post_broken w = ''cannot read body'' @ [newline])"
proof -
  have h1: "Path post_broken = ''/lookup''" by (simp add: request_defs)
  have h2: "Method post_broken = MethodPost" by (simp add: request_defs)
  have h3: "ReadAll (Body post_broken) = (''Go'', Some (GoError ''connection reset''))"
    by (simp add: request_defs ReadAll_def)
  show ?thesis
    using h1 h2 h3 lookup_unreadable_body_gives_400 [OF h1 h2 h3, of None "[]" "[]" example_wiki]
    by simp
qed

text \<open>
  Claim C6. For a POST request to \<open>/lookup\<close> whose body is read without error, the
  handler calls \<open>GetPage\<close> once, and the title it passes is the bytes of the body as
  they were read: nothing is checked, cut or trimmed, whatever their number. An empty
  body gives the empty title, which is passed to the provider like any other.
\<close>

theorem lookup_topic_is_body_verbatim:
  assumes "Path r = ''/lookup''" and "Method r = MethodPost"
    and "ReadAll (Body r) = (topicBytes, None)"
  shows "\<exists>w log. ServeHTTP (main linked args environ) wiki r = Some (w, log)
           \<and> filter isGetPage log = [EvGetPage topicBytes (- 1) False False]
           \<and> topicBytes = contents (Body r)"
proof -
  have c: "topicBytes = contents (Body r)"
    using assms(3) by (simp add: ReadAll_contents)
  show ?thesis
    using ServeHTTP_lookup [OF assms(1), of linked args environ wiki]
          lookupHandler_post [OF assms(2) assms(3), of wiki newResponseWriter "[]"] c
    by (simp add: fetch_calls_GetPage)
qed

theorem lookup_topic_is_body_verbatim_witness:
  "Path post_empty = ''/lookup'' \<and> Method post_empty = MethodPost
   \<and> ReadAll (Body post_empty) = ([], None)
   \<and> (\<exists>w log. ServeHTTP (main None [] []) example_wiki post_empty = Some (w, log)
           \<and> filter isGetPage log = [EvGetPage [] (- 1) False False]
           \<and> [] = contents (Body post_empty))"
proof -
  have h1: "Path post_empty = ''/lookup''" by (simp add: request_defs)
  have h2: "Method post_empty = MethodPost" by (simp add: request_defs)
  have h3: "ReadAll (Body post_empty) = ([], None)" by (simp add: request_defs ReadAll_def)
  show ?thesis
    using h1 h2 h3 lookup_topic_is_body_verbatim [OF h1 h2 h3, of None "[]" "[]" example_wiki]
    by simp
qed


text \<open>
  Claim C9. The answer of \<open>lookupHandler\<close> to a POST request is a function of the topic
  and of what the summary fetcher returns for it, and of nothing else. Two runs on
  requests that deliver the same topic, against providers for which the fetcher
  returns the same result for that topic, leave the same response writer, hence the
  same status and body. The status and body are 200 and the summary, or 500 and the
  error message. This holds whatever else differs between the runs: the event logs
  they start from, the way the bodies were cut into reads, the paths, and everything
  the two providers answer for other topics. With one provider serving both runs, as
  the claim has it, the condition on the providers holds by itself.
\<close>

theorem lookup_deterministic:
  assumes "Method r1 = MethodPost" and "Method r2 = MethodPost"
    and "ReadAll (Body r1) = (topic, None)" and "ReadAll (Body r2) = (topic, None)"
    and "fst (fetchWikipediaSummary wiki1 topic []) = fst (fetchWikipediaSummary wiki2 topic [])"
  shows "fst (lookupHandler wiki1 r1 (newResponseWriter, log1))
           = fst (lookupHandler wiki2 r2 (newResponseWriter, log2))
       \<and> response r1 (lookupHandler wiki1 r1 (newResponseWriter, log1))
           = response r2 (lookupHandler wiki2 r2 (newResponseWriter, log2))
       \<and> response r1 (lookupHandler wiki1 r1 (newResponseWriter, log1))
           = (case fst (fetchWikipediaSummary wiki1 topic []) of
                (s, None) \<Rightarrow> (200, s)
              | (s, Some e) \<Rightarrow> (500, ''lookup error: '' @ Error e @ [newline]))
       \<and> snd (lookupHandler wiki1 r1 (newResponseWriter, log1))
           = log1 @ EvReadAll # snd (fetchWikipediaSummary wiki1 topic [])
       \<and> snd (lookupHandler wiki2 r2 (newResponseWriter, log2))
           = log2 @ EvReadAll # snd (fetchWikipediaSummary wiki2 topic [])"
proof -
  obtain s err where a: "fst (fetchWikipediaSummary wiki1 topic []) = (s, err)"
    by (metis surj_pair)
  have a2: "fst (fetchWikipediaSummary wiki2 topic []) = (s, err)"
    using a assms(5) by simp
  let ?w = "case err of
              Some e \<Rightarrow> http_Error (Sprintf_lookup_error e) StatusInternalServerError
                          newResponseWriter
            | None \<Rightarrow> Fprint s newResponseWriter"
  have run1: "lookupHandler wiki1 r1 (newResponseWriter, log1)
                = (?w, log1 @ EvReadAll # snd (fetchWikipediaSummary wiki1 topic []))"
    using lookupHandler_post [OF assms(1) assms(3), of wiki1 newResponseWriter log1] a
    by (cases err) simp_all
  have run2: "lookupHandler wiki2 r2 (newResponseWriter, log2)
                = (?w, log2 @ EvReadAll # snd (fetchWikipediaSummary wiki2 topic []))"
    using lookupHandler_post [OF assms(2) assms(4), of wiki2 newResponseWriter log2] a2
    by (cases err) simp_all
  have st: "statusCode ?w = (case err of None \<Rightarrow> 200 | Some e \<Rightarrow> 500)"
    by (simp add: http_Error_fresh Fprint_fresh StatusInternalServerError_def
             split: option.splits)
  then have ok: "statusCode ?w \<in> {200, 400, 405, 500}"
    by (simp split: option.splits)
  have b1: "body r1 ?w = concat (writes ?w)"
    using body_post [OF assms(1) ok] .
  have b2: "body r2 ?w = concat (writes ?w)"
    using body_post [OF assms(2) ok] .
  have wr: "concat (writes ?w)
              = (case err of None \<Rightarrow> s | Some e \<Rightarrow> ''lookup error: '' @ Error e @ [newline])"
    by (simp add: http_Error_fresh Fprint_fresh Sprintf_lookup_error_def split: option.splits)
  have r1: "response r1 (lookupHandler wiki1 r1 (newResponseWriter, log1))
              = (case (s, err) of
                   (s, None) \<Rightarrow> (200, s)
                 | (s, Some e) \<Rightarrow> (500, ''lookup error: '' @ Error e @ [newline]))"
    unfolding run1 response_def using st b1 wr by (simp split: option.splits)
  have r2: "response r2 (lookupHandler wiki2 r2 (newResponseWriter, log2))
              = (case (s, err) of
                   (s, None) \<Rightarrow> (200, s)
                 | (s, Some e) \<Rightarrow> (500, ''lookup error: '' @ Error e @ [newline]))"
    unfolding run2 response_def using st b2 wr by (simp split: option.splits)
  show ?thesis
    unfolding r1 r2 a using run1 run2 by simp
qed

theorem lookup_deterministic_witness:
  "Method post_Go = MethodPost \<and> Method post_Go_whole = MethodPost
   \<and> ReadAll (Body post_Go) = (''Go'', None) \<and> ReadAll (Body post_Go_whole) = (''Go'', None)
   \<and> fst (fetchWikipediaSummary example_wiki ''Go'' [])
       = fst (fetchWikipediaSummary other_wiki ''Go'' [])
   \<and> post_Go \<noteq> post_Go_whole
   \<and> GetPage example_wiki ''Go'' (- 1) False False \<noteq> GetPage other_wiki ''Go'' (- 1) False False
   \<and> response post_Go (lookupHandler example_wiki post_Go (newResponseWriter, []))
       = response post_Go_whole
           (lookupHandler other_wiki post_Go_whole (newResponseWriter, [EvGetSummary 7]))
   \<and> response post_Go (lookupHandler example_wiki post_Go (newResponseWriter, []))
       = (200, ''Go is a programming language.'')"
proof -
  have h1: "Method post_Go = MethodPost" by (simp add: request_defs)
  have h2: "Method post_Go_whole = MethodPost" by (simp add: request_defs)
  have h3: "ReadAll (Body post_Go) = (''Go'', None)" by (simp add: request_defs ReadAll_def)
  have h4: "ReadAll (Body post_Go_whole) = (''Go'', None)"
    by (simp add: request_defs ReadAll_def)
  have h5: "fst (fetchWikipediaSummary example_wiki ''Go'' [])
              = fst (fetchWikipediaSummary other_wiki ''Go'' [])"
    by (simp add: example_fetch_Go other_fetch_Go)
  have d: "post_Go \<noteq> post_Go_whole" by (simp add: request_defs)
  have g: "GetPage example_wiki ''Go'' (- 1) False False
             \<noteq> GetPage other_wiki ''Go'' (- 1) False False"
    by (simp add: example_wiki_def other_wiki_def)
  note t = lookup_deterministic [OF h1 h2 h3 h4 h5, of "[]" "[EvGetSummary 7]"]
  have e1: "response post_Go (lookupHandler example_wiki post_Go (newResponseWriter, []))
              = response post_Go_whole
                  (lookupHandler other_wiki post_Go_whole (newResponseWriter, [EvGetSummary 7]))"
    using t by blast
  have "response post_Go (lookupHandler example_wiki post_Go (newResponseWriter, []))
          = (case fst (fetchWikipediaSummary example_wiki ''Go'' []) of
               (s, None) \<Rightarrow> (200, s)
             | (s, Some e) \<Rightarrow> (500, ''lookup error: '' @ Error e @ [newline]))"
    using t by blast
  then have e2: "response post_Go (lookupHandler example_wiki post_Go (newResponseWriter, []))
              = (200, ''Go is a programming language.'')"
    by (simp add: example_fetch_Go)
  show ?thesis
    using h1 h2 h3 h4 h5 d g e1 e2 by blast
qed

text \<open>
  The condition on the providers is needed: where the summary of the topic has been
  edited between two runs, the same request gets two different bodies.
\<close>

lemma lookup_follows_the_provider:
  "response post_Go (lookupHandler example_wiki post_Go (newResponseWriter, []))
     = (200, ''Go is a programming language.'')
   \<and> response post_Go (lookupHandler edited_wiki post_Go (newResponseWriter, []))
     = (200, ''Go is a board game.'')"
proof -
  have h2: "Method post_Go = MethodPost" by (simp add: request_defs)
  have h3: "ReadAll (Body post_Go) = (''Go'', None)" by (simp add: request_defs ReadAll_def)
  have ok: "statusCode (Fprint s newResponseWriter) \<in> {200, 400, 405, 500}" for s
    by (simp add: Fprint_fresh)
  show ?thesis
    using lookupHandler_post [OF h2 h3, of example_wiki newResponseWriter "[]"]
          lookupHandler_post [OF h2 h3, of edited_wiki newResponseWriter "[]"]
          body_post [OF h2 ok]
    by (simp add: response_def example_fetch_Go edited_fetch_Go Fprint_fresh)
qed


subsection \<open>The health and version endpoints\<close>

lemma canonical_Content_Type: "CanonicalMIMEHeaderKey ''Content-Type'' = ''Content-Type''"
  by code_simp

lemma marshal_status: \<open>marshalMap [(''status'', ''ok'')] = ''{"status":"ok"}''\<close>
  by code_simp

lemma appendString_name: "appendString ''name'' = dquote # ''name'' @ [dquote]"
  by code_simp

lemma appendString_agent:
  "appendString ''wikipedia-agent'' = dquote # ''wikipedia-agent'' @ [dquote]"
  by code_simp

lemma appendString_version: "appendString ''version'' = dquote # ''version'' @ [dquote]"
  by code_simp

lemma sort_name_version:
  "sort_key fst [(''name'', a), (''version'', b)] = [(''name'', a), (''version'', b)]"
  by (simp add: less_eq_char_def)

lemma marshal_version:
  \<open>marshalMap [(''name'', ''wikipedia-agent''), (''version'', v)]
     = ''{"name":"wikipedia-agent","version":'' @ appendString v @ ''}''\<close>
  unfolding marshalMap_def sort_name_version
  by (simp add: appendString_name appendString_agent appendString_version dquote_def)

lemma marshal_version_dev:
  \<open>marshalMap [(''name'', ''wikipedia-agent''), (''version'', ''dev'')]
     = ''{"name":"wikipedia-agent","version":"dev"}''\<close>
  by code_simp

lemma Encode_json_fresh:
  "statusCode (Encode v (Header_Set ''Content-Type'' ''application/json'' newResponseWriter)) = 200"
  "header (Encode v (Header_Set ''Content-Type'' ''application/json'' newResponseWriter))
     ''Content-Type'' = Some [''application/json'']"
  "writes (Encode v (Header_Set ''Content-Type'' ''application/json'' newResponseWriter))
     = [marshalMap v @ [newline]]"
  by (simp_all add: Encode_def writer_defs canonical_Content_Type)

lemma body_json:
  "body r (Encode v (Header_Set ''Content-Type'' ''application/json'' newResponseWriter))
     = (if Method r = MethodHead then [] else marshalMap v @ [newline])"
  by (simp add: body_def bodyAllowedForStatus_def Encode_json_fresh)

text \<open>
  Claim C4, as the code has it. A request to \<open>/health\<close>, whatever its method, is
  answered with status 200 and the header \<open>Content-Type: application/json\<close>, and the
  handler writes, in one write, the text \<open>{"status":"ok"}\<close> followed by one newline
  character, which the encoder puts after every value it encodes. That text with its
  newline is the body the client receives, except in reply to a \<open>HEAD\<close> request, where
  the server sends no body. No event is logged.
\<close>

theorem health_always_ok:
  assumes "Path r = ''/health''"
  shows \<open>\<exists>w. ServeHTTP (main linked args environ) wiki r = Some (w, [])
           \<and> statusCode w = 200
           \<and> header w ''Content-Type'' = Some [''application/json'']
           \<and> writes w = [''{"status":"ok"}'' @ [newline]]
           \<and> body r w = (if Method r = MethodHead then [] else ''{"status":"ok"}'' @ [newline])\<close>
  using ServeHTTP_health [OF assms, of linked args environ wiki]
  by (simp add: healthHandler_def Encode_json_fresh body_json marshal_status)

theorem health_always_ok_witness:
  \<open>Path get_health = ''/health'' \<and> Path head_health = ''/health''
   \<and> (\<exists>w. ServeHTTP (main None [] []) example_wiki get_health = Some (w, [])
           \<and> statusCode w = 200
           \<and> header w ''Content-Type'' = Some [''application/json'']
           \<and> body get_health w = ''{"status":"ok"}'' @ [newline])
   \<and> (\<exists>w. ServeHTTP (main None [] []) example_wiki head_health = Some (w, [])
           \<and> statusCode w = 200
           \<and> writes w = [''{"status":"ok"}'' @ [newline]]
           \<and> body head_health w = [])\<close>
proof -
  have h: "Path get_health = ''/health''" by (simp add: request_defs)
  have h': "Path head_health = ''/health''" by (simp add: request_defs)
  have m: "Method get_health \<noteq> MethodHead" by (simp add: request_defs)
  have m': "Method head_health = MethodHead" by (simp add: request_defs)
  show ?thesis
    using h h' m m'
          health_always_ok [OF h, of None "[]" "[]" example_wiki]
          health_always_ok [OF h', of None "[]" "[]" example_wiki]
    by auto
qed

text \<open>
  The claim as the specification words it, a body that is exactly \<open>{"status":"ok"}\<close>,
  fails on a plain GET request: the body has one byte more.
\<close>

theorem health_body_counterexample:
  \<open>map_option (response get_health) (ServeHTTP (main None [] []) example_wiki get_health)
     = Some (200, ''{"status":"ok"}'' @ [newline])
   \<and> map_option (response get_health) (ServeHTTP (main None [] []) example_wiki get_health)
     \<noteq> Some (200, ''{"status":"ok"}'')\<close>
proof -
  have "ServeHTTP (main None [] []) example_wiki get_health
          = Some (healthHandler example_wiki get_health (newResponseWriter, []))"
    by (simp add: ServeHTTP_health request_defs)
  moreover have "Method get_health \<noteq> MethodHead" by (simp add: request_defs)
  ultimately have r:
    "map_option (response get_health) (ServeHTTP (main None [] []) example_wiki get_health)
       = Some (200, marshalMap [(''status'', ''ok'')] @ [newline])"
    by (simp add: healthHandler_def response_def Encode_json_fresh body_json)
  show ?thesis
    unfolding r by (simp add: marshal_status)
qed

text \<open>
  Claim C8, as the code has it. A request to \<open>/version\<close>, whatever its method, is
  answered with status 200 and the header \<open>Content-Type: application/json\<close>, and the
  handler writes, in one write, a JSON object whose field \<open>name\<close> is
  \<open>wikipedia-agent\<close> and whose field \<open>version\<close> is the quoted value of \<open>appVersion\<close>,
  followed by a newline. That is the body the client receives, except in reply to a
  \<open>HEAD\<close> request, where the server sends no body. The version field is the empty
  string exactly when \<open>appVersion\<close> is; in a binary linked without a value for it,
  \<open>appVersion\<close> is \<open>dev\<close>.
\<close>

theorem version_reports_name_and_version:
  assumes "Path r = ''/version''"
  shows \<open>\<exists>w. ServeHTTP (main linked args environ) wiki r = Some (w, [])
           \<and> statusCode w = 200
           \<and> header w ''Content-Type'' = Some [''application/json'']
           \<and> writes w = [''{"name":"wikipedia-agent","version":''
                          @ appendString (appVersion linked) @ ''}'' @ [newline]]
           \<and> body r w = (if Method r = MethodHead then []
                         else ''{"name":"wikipedia-agent","version":''
                              @ appendString (appVersion linked) @ ''}'' @ [newline])
           \<and> (appendString (appVersion linked) = [dquote, dquote]) = (appVersion linked = [])
           \<and> appVersion None = ''dev''\<close>
proof -
  have "appVersion None = ''dev''" by (simp add: appVersion_def)
  then show ?thesis
    using ServeHTTP_version [OF assms, of linked args environ wiki]
    by (simp add: versionHandler_def Let_def Encode_json_fresh body_json marshal_version
          appendString_empty)
qed

theorem version_reports_name_and_version_witness:
  \<open>Path delete_version = ''/version''
   \<and> (\<exists>w. ServeHTTP (main None [] []) example_wiki delete_version = Some (w, [])
           \<and> statusCode w = 200
           \<and> body delete_version w = ''{"name":"wikipedia-agent","version":"dev"}'' @ [newline])
   \<and> (\<exists>w. ServeHTTP (main (Some ''v1.2.0'') [] []) example_wiki delete_version = Some (w, [])
           \<and> statusCode w = 200
           \<and> body delete_version w
               = ''{"name":"wikipedia-agent","version":"v1.2.0"}'' @ [newline])\<close>
proof -
  have h: "Path delete_version = ''/version''" by (simp add: request_defs)
  have m: "Method delete_version \<noteq> MethodHead" by (simp add: request_defs)
  have a: \<open>appendString (appVersion None) = ''"dev"''\<close>
    unfolding appVersion_def by code_simp
  have b: \<open>appendString (appVersion (Some ''v1.2.0'')) = ''"v1.2.0"''\<close>
    unfolding appVersion_def by code_simp
  show ?thesis
    using h m
          version_reports_name_and_version [OF h, of None "[]" "[]" example_wiki]
          version_reports_name_and_version [OF h, of "Some ''v1.2.0''" "[]" "[]" example_wiki]
    unfolding a b by auto
qed

text \<open>
  The claim as the specification words it, a JSON body for every method, fails on a
  \<open>HEAD\<close> request: the status is 200 and the body is empty, so it holds no field.
\<close>

theorem version_head_counterexample:
  "map_option (response head_version) (ServeHTTP (main None [] []) example_wiki head_version)
     = Some (200, [])"
proof -
  have "ServeHTTP (main None [] []) example_wiki head_version
          = Some (versionHandler None example_wiki head_version (newResponseWriter, []))"
    by (simp add: ServeHTTP_version request_defs)
  moreover have "Method head_version = MethodHead" by (simp add: request_defs)
  ultimately show ?thesis
    by (simp add: versionHandler_def Let_def response_def Encode_json_fresh body_json)
qed

text \<open>
  A binary linked with an empty value, \<open>-X main.appVersion=\<close>, reports an empty version
  field on a GET request.
\<close>

lemma version_empty_when_linked_empty:
  \<open>map_option (response \<lparr>Method = ''GET'', Path = ''/version'', Body = EOF\<rparr>)
     (ServeHTTP (main (Some []) [] []) example_wiki
        \<lparr>Method = ''GET'', Path = ''/version'', Body = EOF\<rparr>)
     = Some (200, ''{"name":"wikipedia-agent","version":""}'' @ [newline])\<close>
proof -
  have a: \<open>marshalMap [(''name'', ''wikipedia-agent''), (''version'', appVersion (Some []))]
             = ''{"name":"wikipedia-agent","version":""}''\<close>
    unfolding appVersion_def by code_simp
  show ?thesis
    by (simp add: ServeHTTP_version versionHandler_def Let_def response_def Encode_json_fresh
          body_json a MethodHead_def)
qed

subsection \<open>Start-up configuration\<close>

lemma main_ignores_args: "main linked args environ = main linked [] []"
  by (simp add: main_def)

text \<open>
  Claim C5 says that listen address, port and content language follow the command
  line or the environment. The source reads neither. Started as
  \<open>wikipedia-agent -listen=127.0.0.1 -port=9090 -lang=de\<close>, the server still listens
  on \<open>:8080\<close> and announces that address, and a lookup still calls
  \<open>GetPage(topic, -1, false, false)\<close>, with no argument taken from the command line.
\<close>

theorem main_ignores_flags:
  "Addr (main None [''-listen=127.0.0.1'', ''-port=9090'', ''-lang=de''] [(''LANG'', ''de'')]
           :: nat server) = '':8080''
   \<and> map_option snd
        (ServeHTTP (main None [''-listen=127.0.0.1'', ''-port=9090'', ''-lang=de'']
                      [(''LANG'', ''de'')])
           example_wiki post_Go)
       = Some [EvReadAll, EvGetPage ''Go'' (- 1) False False, EvGetSummary 1]
   \<and> banner (main None [''-listen=127.0.0.1'', ''-port=9090'', ''-lang=de'']
                [(''LANG'', ''de'')] :: nat server)
       = ''Wikipedia Agent vdev listening on :8080'' @ [newline]
   \<and> (main None [''-listen=127.0.0.1'', ''-port=9090'', ''-lang=de''] [(''LANG'', ''de'')]
         :: nat server) = main None [] []"
proof -
  have h2: "Method post_Go = MethodPost" by (simp add: request_defs)
  have h3: "ReadAll (Body post_Go) = (''Go'', None)" by (simp add: request_defs ReadAll_def)
  have "ServeHTTP (main None [''-listen=127.0.0.1'', ''-port=9090'', ''-lang=de'']
                     [(''LANG'', ''de'')])
          example_wiki post_Go
        = Some (lookupHandler example_wiki post_Go (newResponseWriter, []))"
    by (simp add: ServeHTTP_lookup request_defs)
  then show ?thesis
    using lookupHandler_post [OF h2 h3, of example_wiki newResponseWriter "[]"]
    by (simp add: example_fetch_Go main_def appVersion_def)
qed

end
